theory Spec2Isabelle
  imports Complex_Main
begin

section \<open>Data model of \<open>app.py\<close>\<close>

text \<open>
  Instants (\<open>datetime\<close> values, \<open>NOW()\<close>) are whole seconds since the epoch, the
  resolution at which a token carries its \<open>exp\<close> claim; a \<open>timedelta\<close> is a number of
  seconds. Python's \<open>float\<close> columns are carried as \<open>real\<close>: no handler computes with
  them. A table is the list of its rows in the order the server returns them, so
  \<open>fetchone()\<close> after a \<open>SELECT ... WHERE\<close> is \<open>find\<close>; the server compares an
  email with the one asked for by equality.
\<close>

type_synonym instant = int

definition timedelta_minutes :: "int \<Rightarrow> int" where
  "timedelta_minutes m = 60 * m"

definition ACCESS_TOKEN_EXPIRE_MINUTES :: int where
  "ACCESS_TOKEN_EXPIRE_MINUTES = 30"

datatype Gender = MALE | FEMALE | OTHER

record ApplicantBase =
  first_name :: string
  last_name :: string
  date_of_birth :: "string option"
  gender :: Gender
  phone_number :: "string option"
  email :: string
  address :: "string option"
  ssc_gpa :: real
  hsc_gpa :: real

record ApplicantCreate = ApplicantBase +
  password :: string

text \<open>A row of \<open>applicant_info\<close>, as \<open>cursor(dictionary=True)\<close> returns it.\<close>

record Applicant = ApplicantBase +
  applicant_id :: int
  created_at :: instant
  updated_at :: instant

text \<open>A row of \<open>applicant_login\<close>; its column \<open>email\<close> is the field \<open>login_email\<close>.\<close>

record LoginRow =
  login_email :: string
  password_hash :: string
  last_login :: "instant option"

text \<open>
  The request body \<open>AdmitCardCreate\<close> and a row of \<open>admit_card\<close>; the column
  \<open>applicant_id\<close> of the card is the field \<open>card_applicant_id\<close>.
\<close>

record AdmitCardBase =
  card_applicant_id :: int
  unit_id :: int
  room_no :: "int option"

record AdmitCard = AdmitCardBase +
  exam_roll :: int
  issued_at :: instant
  applicant_photo :: "string option"

record database =
  applicant_info :: "Applicant list"
  applicant_login :: "LoginRow list"
  admit_card :: "AdmitCard list"

text \<open>
  \<open>HTTPException(status_code, detail, headers)\<close>, and the error a statement raises
  (\<open>mysql.connector.Error\<close>, with its \<open>errno\<close> and the text \<open>str(err)\<close> gives).
\<close>

datatype http_exception =
  HTTPException (status_code: nat) (detail: string) (headers: "(string \<times> string) list")

datatype mysql_error = MySQLError (errno: nat) (err_str: string)

text \<open>
  What the program takes from outside the file: the SHA-256 hex digest of \<open>hashlib\<close>,
  the environment's \<open>SECRET_KEY\<close>, \<open>str\<close> on an \<open>HTTPException\<close>, and
  \<open>base64.b64encode\<close>.
\<close>

record runtime =
  sha256_hexdigest :: "string \<Rightarrow> string"
  SECRET_KEY :: string
  str_exception :: "http_exception \<Rightarrow> string"
  b64encode :: "string \<Rightarrow> string"

subsection \<open>Session tokens\<close>

text \<open>
  The payload handed to \<open>jwt.encode\<close> and returned by \<open>jwt.decode\<close>: the keys \<open>sub\<close>
  and \<open>exp\<close> of the dictionary, each possibly absent. The library is modelled
  symbolically by its contract for HS256: a token is either the payload signed under a
  key, or a string that is no well-formed token; decoding checks the form, then the
  signature, then that the \<open>exp\<close> claim (when present) is still in the future.
\<close>

record claims =
  claim_sub :: "string option"
  claim_exp :: "instant option"

datatype token = Signed string claims | Opaque string

datatype jwt_error = DecodeError | InvalidSignatureError | ExpiredSignatureError

definition jwt_encode :: "claims \<Rightarrow> string \<Rightarrow> token" where
  "jwt_encode payload key = Signed key payload"

fun jwt_decode :: "token \<Rightarrow> string \<Rightarrow> instant \<Rightarrow> jwt_error + claims" where
  "jwt_decode (Opaque s) key now = Inl DecodeError"
| "jwt_decode (Signed k payload) key now =
     (if k \<noteq> key then Inl InvalidSignatureError
      else case claim_exp payload of
             None \<Rightarrow> Inr payload
           | Some e \<Rightarrow> if e \<le> now then Inl ExpiredSignatureError else Inr payload)"

section \<open>Credential and session manager\<close>

definition get_password_hash :: "runtime \<Rightarrow> string \<Rightarrow> string" where
  "get_password_hash rt pw = sha256_hexdigest rt pw"

definition verify_password :: "runtime \<Rightarrow> string \<Rightarrow> string \<Rightarrow> bool" where
  "verify_password rt plain_password hashed_password \<longleftrightarrow>
     get_password_hash rt plain_password = hashed_password"

text \<open>
  \<open>authenticate_user\<close> returns \<open>False\<close>, or whatever \<open>fetchone()\<close> gave for the
  applicant's row (\<open>None\<close> or the row).
\<close>

datatype auth_result = ReturnedFalse | Fetched "Applicant option"

definition touch_last_login :: "instant \<Rightarrow> string \<Rightarrow> LoginRow list \<Rightarrow> LoginRow list" where
  "touch_last_login db_now e rows =
     map (\<lambda>u. if login_email u = e then u\<lparr>last_login := Some db_now\<rparr> else u) rows"

text \<open>
  \<open>db_now\<close> is the server's \<open>NOW()\<close>. The function returns its value and the database
  as committed when it returns.
\<close>

definition authenticate_user ::
  "runtime \<Rightarrow> instant \<Rightarrow> string \<Rightarrow> string \<Rightarrow> database \<Rightarrow> auth_result \<times> database" where
  "authenticate_user rt db_now e pw db =
     (case find (\<lambda>u. login_email u = e) (applicant_login db) of
        None \<Rightarrow> (ReturnedFalse, db)
      | Some user \<Rightarrow>
          if \<not> verify_password rt pw (password_hash user) then (ReturnedFalse, db)
          else
            let db' = db\<lparr>applicant_login := touch_last_login db_now e (applicant_login db)\<rparr>
            in (Fetched (find (\<lambda>a. email a = e) (applicant_info db')), db'))"

text \<open>
  \<open>if expires_delta:\<close> is false for \<open>None\<close> and for a zero \<open>timedelta\<close>; then the
  lifetime is 15 minutes.
\<close>

definition create_access_token :: "runtime \<Rightarrow> instant \<Rightarrow> claims \<Rightarrow> int option \<Rightarrow> token" where
  "create_access_token rt utcnow data expires_delta =
     (let expire = (case expires_delta of
                      None \<Rightarrow> utcnow + timedelta_minutes 15
                    | Some d \<Rightarrow> if d \<noteq> 0 then utcnow + d else utcnow + timedelta_minutes 15)
      in jwt_encode (data\<lparr>claim_exp := Some expire\<rparr>) (SECRET_KEY rt))"

definition credentials_exception :: http_exception where
  "credentials_exception =
     HTTPException 401 ''Could not validate credentials'' [(''WWW-Authenticate'', ''Bearer'')]"

text \<open>
  \<open>get_current_user\<close>: every \<open>jwt.PyJWTError\<close> and a missing \<open>sub\<close> become the one
  \<open>credentials_exception\<close>, and so does a subject with no row in \<open>applicant_info\<close>.
\<close>

definition get_current_user ::
  "runtime \<Rightarrow> instant \<Rightarrow> token \<Rightarrow> database \<Rightarrow> http_exception + Applicant" where
  "get_current_user rt now tok db =
     (case jwt_decode tok (SECRET_KEY rt) now of
        Inl err \<Rightarrow> Inl credentials_exception
      | Inr payload \<Rightarrow>
          (case claim_sub payload of
             None \<Rightarrow> Inl credentials_exception
           | Some e \<Rightarrow>
               (case find (\<lambda>a. email a = e) (applicant_info db) of
                  None \<Rightarrow> Inl credentials_exception
                | Some user \<Rightarrow> Inr user)))"

record Token =
  access_token :: token
  token_type :: string

text \<open>
  The body of the \<open>try\<close> block of \<open>login_for_access_token\<close>, then the handler
  \<open>except Exception\<close> around it: \<open>HTTPException\<close> is an \<open>Exception\<close>, so the 401
  raised inside the block is caught there and raised again as a 500. \<open>not user\<close> holds
  for \<open>False\<close> and for \<open>None\<close>; a fetched row is a non-empty dictionary.
\<close>

definition incorrect_login :: http_exception where
  "incorrect_login =
     HTTPException 401 ''Incorrect email or password'' [(''WWW-Authenticate'', ''Bearer'')]"

text \<open>What \<open>except Exception\<close> makes of that 401.\<close>

definition login_failure :: "runtime \<Rightarrow> http_exception" where
  "login_failure rt =
     HTTPException 500 (''Error during authentication: '' @ str_exception rt incorrect_login) []"

definition login_try ::
  "runtime \<Rightarrow> instant \<Rightarrow> instant \<Rightarrow> string \<Rightarrow> string \<Rightarrow> database
     \<Rightarrow> (http_exception + Token) \<times> database" where
  "login_try rt utcnow db_now username pw db =
     (case authenticate_user rt db_now username pw db of
        (user, db') \<Rightarrow>
          (case user of
             Fetched (Some row) \<Rightarrow>
               (Inr \<lparr>access_token =
                       create_access_token rt utcnow
                         \<lparr>claim_sub = Some (email row), claim_exp = None\<rparr>
                         (Some (timedelta_minutes ACCESS_TOKEN_EXPIRE_MINUTES)),
                     token_type = ''bearer''\<rparr>, db')
           | _ \<Rightarrow> (Inl incorrect_login, db')))"

definition login_for_access_token ::
  "runtime \<Rightarrow> instant \<Rightarrow> instant \<Rightarrow> string \<Rightarrow> string \<Rightarrow> database
     \<Rightarrow> (http_exception + Token) \<times> database" where
  "login_for_access_token rt utcnow db_now username pw db =
     (case login_try rt utcnow db_now username pw db of
        (Inr tok, db') \<Rightarrow> (Inr tok, db')
      | (Inl e, db') \<Rightarrow>
          (Inl (HTTPException 500 (''Error during authentication: '' @ str_exception rt e) []),
           db'))"

text \<open>The expiry instant a token carries: its \<open>exp\<close> claim.\<close>

definition token_expiry :: "token \<Rightarrow> instant option" where
  "token_expiry tok = (case tok of Signed k payload \<Rightarrow> claim_exp payload | Opaque s \<Rightarrow> None)"

text \<open>A response in the 4xx range tells the client that its request was at fault.\<close>

definition client_error :: "http_exception \<Rightarrow> bool" where
  "client_error e \<longleftrightarrow> 400 \<le> status_code e \<and> status_code e < 500"

section \<open>The store\<close>

text \<open>
  The tables' declarations are not part of \<open>app.py\<close>: which \<open>INSERT\<close> the server
  refuses, and with which error, is a parameter, and so is the \<open>applicant_id\<close> it
  gives a new applicant. Columns an \<open>INSERT\<close> leaves out take the server's values:
  the timestamps the server's \<open>NOW()\<close>, \<open>last_login\<close> and \<open>applicant_photo\<close> \<open>NULL\<close>.
  A handler works on its connection's transaction: \<open>commit\<close> makes the working
  tables the database, \<open>rollback\<close> gives back the database it started from.
\<close>

record store =
  reject_applicant_info :: "database \<Rightarrow> Applicant \<Rightarrow> mysql_error option"
  reject_applicant_login :: "database \<Rightarrow> LoginRow \<Rightarrow> mysql_error option"
  reject_admit_card :: "database \<Rightarrow> AdmitCard \<Rightarrow> mysql_error option"
  next_applicant_id :: "database \<Rightarrow> int"

definition insert_applicant_info :: "store \<Rightarrow> Applicant \<Rightarrow> database \<Rightarrow> mysql_error + database" where
  "insert_applicant_info st row db =
     (case reject_applicant_info st db row of
        Some err \<Rightarrow> Inl err
      | None \<Rightarrow> Inr (db\<lparr>applicant_info := applicant_info db @ [row]\<rparr>))"

definition insert_applicant_login :: "store \<Rightarrow> LoginRow \<Rightarrow> database \<Rightarrow> mysql_error + database" where
  "insert_applicant_login st row db =
     (case reject_applicant_login st db row of
        Some err \<Rightarrow> Inl err
      | None \<Rightarrow> Inr (db\<lparr>applicant_login := applicant_login db @ [row]\<rparr>))"

definition insert_admit_card :: "store \<Rightarrow> AdmitCard \<Rightarrow> database \<Rightarrow> mysql_error + database" where
  "insert_admit_card st row db =
     (case reject_admit_card st db row of
        Some err \<Rightarrow> Inl err
      | None \<Rightarrow> Inr (db\<lparr>admit_card := admit_card db @ [row]\<rparr>))"

section \<open>Registration\<close>

definition info_row :: "store \<Rightarrow> instant \<Rightarrow> ApplicantCreate \<Rightarrow> database \<Rightarrow> Applicant" where
  "info_row st db_now a db =
     \<lparr>first_name = first_name a, last_name = last_name a, date_of_birth = date_of_birth a,
      gender = gender a, phone_number = phone_number a, email = email a,
      address = address a, ssc_gpa = ssc_gpa a, hsc_gpa = hsc_gpa a,
      applicant_id = next_applicant_id st db, created_at = db_now, updated_at = db_now\<rparr>"

definition login_row :: "runtime \<Rightarrow> ApplicantCreate \<Rightarrow> LoginRow" where
  "login_row rt a =
     \<lparr>login_email = email a, password_hash = get_password_hash rt (password a),
      last_login = None\<rparr>"

text \<open>The handler \<open>except mysql.connector.Error\<close> of \<open>register_applicant\<close>, after its rollback.\<close>

definition register_error :: "mysql_error \<Rightarrow> http_exception" where
  "register_error err =
     (if errno err = 1062 then HTTPException 400 ''Email already registered'' []
      else HTTPException 500 (''Database error: '' @ err_str err) [])"

definition register_applicant ::
  "store \<Rightarrow> runtime \<Rightarrow> instant \<Rightarrow> ApplicantCreate \<Rightarrow> database
     \<Rightarrow> (http_exception + string) \<times> database" where
  "register_applicant st rt db_now a db =
     (case insert_applicant_info st (info_row st db_now a db) db of
        Inl err \<Rightarrow> (Inl (register_error err), db)
      | Inr db1 \<Rightarrow>
          (case insert_applicant_login st (login_row rt a) db1 of
             Inl err \<Rightarrow> (Inl (register_error err), db)
           | Inr db2 \<Rightarrow> (Inr ''Applicant registered successfully'', db2)))"

section \<open>Roll allocator\<close>

text \<open>\<open>SELECT MAX(exam_roll)\<close>: \<open>NULL\<close> on an empty table.\<close>

fun sql_max :: "int list \<Rightarrow> int option" where
  "sql_max [] = None"
| "sql_max (x # xs) = (case sql_max xs of None \<Rightarrow> Some x | Some m \<Rightarrow> Some (max x m))"

text \<open>Python's \<open>v or d\<close> on an optional integer: \<open>None\<close> and \<open>0\<close> are both false.\<close>

definition or_default :: "int option \<Rightarrow> int \<Rightarrow> int" where
  "or_default v d = (case v of None \<Rightarrow> d | Some x \<Rightarrow> if x = 0 then d else x)"

definition new_roll :: "database \<Rightarrow> int" where
  "new_roll db = or_default (sql_max (map exam_roll (admit_card db))) 220430 + 1"

definition card_row :: "instant \<Rightarrow> AdmitCardBase \<Rightarrow> int \<Rightarrow> AdmitCard" where
  "card_row db_now req roll =
     \<lparr>card_applicant_id = card_applicant_id req, unit_id = unit_id req, room_no = room_no req,
      exam_roll = roll, issued_at = db_now, applicant_photo = None\<rparr>"

text \<open>\<open>if new_admit_card["applicant_photo"]:\<close> is false for \<open>None\<close> and for empty bytes.\<close>

definition encode_photo :: "runtime \<Rightarrow> AdmitCard \<Rightarrow> AdmitCard" where
  "encode_photo rt c =
     (case applicant_photo c of
        None \<Rightarrow> c
      | Some p \<Rightarrow> if p = [] then c else c\<lparr>applicant_photo := Some (b64encode rt p)\<rparr>)"

text \<open>
  The database is shared: \<open>others\<close> are the cards other connections commit between
  this call's \<open>SELECT MAX\<close> and its \<open>INSERT\<close> (none when the call runs alone).
  A \<open>fetchone()\<close> that found no row would make the subscript raise a \<open>TypeError\<close>,
  which the handler does not catch; the framework answers 500.
\<close>

definition with_others :: "AdmitCard list \<Rightarrow> database \<Rightarrow> database" where
  "with_others others db = db\<lparr>admit_card := admit_card db @ others\<rparr>"

definition create_admit_card ::
  "store \<Rightarrow> runtime \<Rightarrow> AdmitCard list \<Rightarrow> instant \<Rightarrow> AdmitCardBase \<Rightarrow> database
     \<Rightarrow> (http_exception + AdmitCard) \<times> database" where
  "create_admit_card st rt others db_now req db =
     (let roll = new_roll db;
          db1 = with_others others db
      in case insert_admit_card st (card_row db_now req roll) db1 of
           Inl err \<Rightarrow> (Inl (HTTPException 500 (''Database error: '' @ err_str err) []), db1)
         | Inr db2 \<Rightarrow>
             (case find (\<lambda>c. exam_roll c = roll) (admit_card db2) of
                None \<Rightarrow> (Inl (HTTPException 500 ''Internal Server Error'' []), db2)
              | Some c \<Rightarrow> (Inr (encode_photo rt c), db2)))"

text \<open>
  Calls that do not overlap: each request is served alone, on the database the call
  before it committed.
\<close>

fun issue_all ::
  "store \<Rightarrow> runtime \<Rightarrow> instant \<Rightarrow> AdmitCardBase list \<Rightarrow> database
     \<Rightarrow> (http_exception + AdmitCard) list \<times> database" where
  "issue_all st rt db_now [] db = ([], db)"
| "issue_all st rt db_now (req # reqs) db =
     (case create_admit_card st rt [] db_now req db of
        (r, db1) \<Rightarrow>
          (case issue_all st rt db_now reqs db1 of (rs, db2) \<Rightarrow> (r # rs, db2)))"

text \<open>
  What the specification expects of the allocator: the cards of the requests under the
  consecutive roll numbers \<open>r\<close>, \<open>r + 1\<close>, ..., and tables whose roll numbers all lie
  above the floor 220430, as every roll number the allocator has issued does.
\<close>

fun consecutive_cards :: "instant \<Rightarrow> int \<Rightarrow> AdmitCardBase list \<Rightarrow> AdmitCard list" where
  "consecutive_cards db_now r [] = []"
| "consecutive_cards db_now r (req # reqs) =
     card_row db_now req r # consecutive_cards db_now (r + 1) reqs"

definition rolls_above_floor :: "AdmitCard list \<Rightarrow> bool" where
  "rolls_above_floor cards = list_all (\<lambda>c. 220431 \<le> exam_roll c) cards"

section \<open>Concrete stores and data\<close>

text \<open>
  Modelled from the spec: the declarations of the tables are missing from the sources.
  \<open>keyed_store\<close> enforces the uniqueness the spec's data model states (one credential
  per email, one card per roll number, one card per applicant) and answers a violation
  with MySQL's duplicate-key error 1062; \<open>unkeyed_store\<close> differs in that it has no
  key on the card's applicant.
\<close>

definition duplicate_entry :: mysql_error where
  "duplicate_entry = MySQLError 1062 ''Duplicate entry''"

definition keyed_store :: store where
  "keyed_store =
     \<lparr>reject_applicant_info = (\<lambda>db r. None),
      reject_applicant_login = (\<lambda>db r.
        if login_email r \<in> set (map login_email (applicant_login db))
        then Some duplicate_entry else None),
      reject_admit_card = (\<lambda>db c.
        if exam_roll c \<in> set (map exam_roll (admit_card db))
           \<or> card_applicant_id c \<in> set (map card_applicant_id (admit_card db))
        then Some duplicate_entry else None),
      next_applicant_id = (\<lambda>db. int (length (applicant_info db)) + 1)\<rparr>"

definition unkeyed_store :: store where
  "unkeyed_store =
     keyed_store\<lparr>reject_admit_card := (\<lambda>db c.
        if exam_roll c \<in> set (map exam_roll (admit_card db))
        then Some duplicate_entry else None)\<rparr>"

text \<open>
  \<open>open_store\<close> has no key on \<open>admit_card\<close> at all. \<open>long_name_store\<close> is
  \<open>keyed_store\<close> with a column \<open>first_name\<close> of five characters: a longer name is
  refused with MySQL's error 1406.
\<close>

definition open_store :: store where
  "open_store = keyed_store\<lparr>reject_admit_card := (\<lambda>db c. None)\<rparr>"

definition data_too_long :: mysql_error where
  "data_too_long = MySQLError 1406 ''1406 (22001): Data too long for column first_name at row 1''"

definition long_name_store :: store where
  "long_name_store =
     keyed_store\<lparr>reject_applicant_info := (\<lambda>db r.
        if 5 < length (first_name r) then Some data_too_long else None)\<rparr>"

definition rt0 :: runtime where
  "rt0 = \<lparr>sha256_hexdigest = (\<lambda>s. ''sha256:'' @ s), SECRET_KEY = ''your-secret-key'',
          str_exception = (\<lambda>e. detail e), b64encode = (\<lambda>s. ''b64:'' @ s)\<rparr>"

definition alice :: ApplicantCreate where
  "alice = \<lparr>first_name = ''A'', last_name = ''X'', date_of_birth = None, gender = FEMALE,
            phone_number = None, email = ''a@x.com'', address = None, ssc_gpa = 5,
            hsc_gpa = 4, password = ''pw1''\<rparr>"

text \<open>An applicant with \<open>alice\<close>'s email and a longer name.\<close>

definition alexandra :: ApplicantCreate where
  "alexandra = alice\<lparr>first_name := ''Alexandra''\<rparr>"

definition empty_db :: database where
  "empty_db = \<lparr>applicant_info = [], applicant_login = [], admit_card = []\<rparr>"

text \<open>The database after \<open>alice\<close> registered at instant 10.\<close>

definition alice_info :: Applicant where
  "alice_info = info_row keyed_store 10 alice empty_db"

definition db_alice :: database where
  "db_alice = \<lparr>applicant_info = [alice_info], applicant_login = [login_row rt0 alice],
               admit_card = []\<rparr>"

text \<open>A credential whose applicant row is missing.\<close>

definition db_orphan :: database where
  "db_orphan = \<lparr>applicant_info = [], applicant_login = [login_row rt0 alice], admit_card = []\<rparr>"

definition card_of :: "int \<Rightarrow> int \<Rightarrow> AdmitCard" where
  "card_of applicant roll =
     card_row 10 \<lparr>card_applicant_id = applicant, unit_id = 1, room_no = None\<rparr> roll"

definition db_one_card :: database where
  "db_one_card = empty_db\<lparr>admit_card := [card_of 1 220431]\<rparr>"

definition request_for :: "int \<Rightarrow> AdmitCardBase" where
  "request_for applicant = \<lparr>card_applicant_id = applicant, unit_id = 2, room_no = Some 7\<rparr>"

section \<open>Properties of the session manager\<close>

lemmas fixture_defs =
  rt0_def alice_def alexandra_def open_store_def long_name_store_def data_too_long_def
  empty_db_def alice_info_def db_alice_def db_orphan_def card_of_def
  db_one_card_def request_for_def keyed_store_def unkeyed_store_def
  duplicate_entry_def info_row_def login_row_def card_row_def get_password_hash_def
  verify_password_def

lemma find_email_eq: "find (\<lambda>a. email a = e) rows = Some row \<Longrightarrow> email row = e"
  by (auto simp: find_Some_iff)

lemma login_refused:
  "fst (authenticate_user rt db_now e pw db) = ReturnedFalse \<Longrightarrow>
   login_for_access_token rt utcnow db_now e pw db = (Inl (login_failure rt), snd (authenticate_user rt db_now e pw db))"
  by (cases "authenticate_user rt db_now e pw db")
     (simp add: login_for_access_token_def login_try_def login_failure_def)

lemma login_success:
  assumes cred: "find (\<lambda>u. login_email u = e) (applicant_login db) = Some user"
    and pw: "verify_password rt pw (password_hash user)"
    and info: "find (\<lambda>a. email a = e) (applicant_info db) = Some row"
  shows "login_for_access_token rt utcnow db_now e pw db =
          (Inr \<lparr>access_token = jwt_encode \<lparr>claim_sub = Some e, claim_exp = Some (utcnow + 1800)\<rparr> (SECRET_KEY rt),
                token_type = ''bearer''\<rparr>,
           db\<lparr>applicant_login := touch_last_login db_now e (applicant_login db)\<rparr>)"
  using cred pw info find_email_eq [OF info]
  by (simp add: login_for_access_token_def login_try_def authenticate_user_def
      create_access_token_def timedelta_minutes_def ACCESS_TOKEN_EXPIRE_MINUTES_def)

lemma issued_token_form:
  "create_access_token rt utcnow data delta =
     Signed (SECRET_KEY rt)
       (data\<lparr>claim_exp := Some (utcnow + (case delta of None \<Rightarrow> 900 | Some d \<Rightarrow> if d = 0 then 900 else d))\<rparr>)"
  by (simp add: create_access_token_def jwt_encode_def timedelta_minutes_def split: option.splits)

lemma resolve_signed:
  "get_current_user rt now (Signed (SECRET_KEY rt) (data\<lparr>claim_exp := Some x\<rparr>)) db =
     (if x \<le> now then Inl credentials_exception
      else case claim_sub data of
             None \<Rightarrow> Inl credentials_exception
           | Some e \<Rightarrow> (case find (\<lambda>a. email a = e) (applicant_info db) of
                          None \<Rightarrow> Inl credentials_exception
                        | Some user \<Rightarrow> Inr user))"
  by (simp add: get_current_user_def)

lemma resolve_forged:
  "k \<noteq> SECRET_KEY rt \<Longrightarrow> get_current_user rt now (Signed k payload) db = Inl credentials_exception"
  by (simp add: get_current_user_def)

lemma resolve_opaque: "get_current_user rt now (Opaque s) db = Inl credentials_exception"
  by (simp add: get_current_user_def)

text \<open>
  Claim C6. A login that fails because the email has no credential and a login that
  fails because the password's digest differs from the stored one end the same way:
  \<open>authenticate_user\<close> returns \<open>False\<close> in both cases and changes nothing, and the
  endpoint answers both with the one response \<open>login_failure\<close> (the 401
  "Incorrect email or password", as \<open>except Exception\<close> hands it on), whatever the
  emails and passwords are.
\<close>

theorem authenticate_failure_same_kind:
  assumes unknown: "find (\<lambda>u. login_email u = e1) (applicant_login db) = None"
    and known: "find (\<lambda>u. login_email u = e2) (applicant_login db) = Some user"
    and wrong: "\<not> verify_password rt pw2 (password_hash user)"
  shows "authenticate_user rt db_now e1 pw1 db = (ReturnedFalse, db)
       \<and> authenticate_user rt db_now e2 pw2 db = (ReturnedFalse, db)
       \<and> login_for_access_token rt utcnow db_now e1 pw1 db = (Inl (login_failure rt), db)
       \<and> login_for_access_token rt utcnow db_now e2 pw2 db = (Inl (login_failure rt), db)"
proof -
  have a1: "authenticate_user rt db_now e1 pw1 db = (ReturnedFalse, db)"
    using unknown by (simp add: authenticate_user_def)
  have a2: "authenticate_user rt db_now e2 pw2 db = (ReturnedFalse, db)"
    using known wrong by (simp add: authenticate_user_def)
  show ?thesis
    using a1 a2 login_refused [of rt db_now e1 pw1 db utcnow]
      login_refused [of rt db_now e2 pw2 db utcnow]
    by simp
qed

text \<open>
  Claim C7. For an email with a credential and an applicant row, and the password whose
  digest is stored, the login succeeds, and resolving the returned token at any instant
  before its expiry gives the applicant's row, whose email is the one that logged in.
\<close>

theorem authenticate_then_resolve:
  assumes cred: "find (\<lambda>u. login_email u = e) (applicant_login db) = Some user"
    and pw: "password_hash user = get_password_hash rt pw"
    and info: "find (\<lambda>a. email a = e) (applicant_info db) = Some row"
    and early: "now < utcnow + timedelta_minutes ACCESS_TOKEN_EXPIRE_MINUTES"
  shows "\<exists>tok db'. login_for_access_token rt utcnow db_now e pw db = (Inr tok, db')
           \<and> get_current_user rt now (access_token tok) db' = Inr row \<and> email row = e"
proof -
  have v: "verify_password rt pw (password_hash user)"
    using pw by (simp add: verify_password_def)
  have "get_current_user rt now
          (jwt_encode \<lparr>claim_sub = Some e, claim_exp = Some (utcnow + 1800)\<rparr> (SECRET_KEY rt))
          (db\<lparr>applicant_login := touch_last_login db_now e (applicant_login db)\<rparr>) = Inr row"
    using info early
    by (simp add: get_current_user_def jwt_encode_def timedelta_minutes_def
        ACCESS_TOKEN_EXPIRE_MINUTES_def)
  then show ?thesis
    using login_success [OF cred v info, of utcnow db_now] find_email_eq [OF info] by simp
qed

text \<open>
  Claim C8, as amended. A token issued for the subject \<open>e\<close> carries an expiry instant \<open>x\<close>.
  Resolving it before \<open>x\<close> succeeds with the applicant's row when \<open>e\<close> has one; at or
  after \<open>x\<close> the decoder reports the expired signature and the resolution fails; it
  fails when \<open>e\<close> has no applicant row; and for a token that is not signed with the
  server's key, or is no token at all, the decoder reports the bad signature or form
  and the resolution fails. \<open>get_current_user\<close> does not keep the kind: every
  failure is the one \<open>credentials_exception\<close>, the 401 "Could not validate
  credentials".
\<close>

theorem resolve_issued_token:
  assumes issued: "tok = create_access_token rt utcnow data delta"
    and subject: "claim_sub data = Some e"
  shows "\<exists>x. token_expiry tok = Some x
       \<and> (\<forall>row. now < x \<and> find (\<lambda>a. email a = e) (applicant_info db) = Some row
             \<longrightarrow> get_current_user rt now tok db = Inr row)
       \<and> (x \<le> now \<longrightarrow> jwt_decode tok (SECRET_KEY rt) now = Inl ExpiredSignatureError
             \<and> get_current_user rt now tok db = Inl credentials_exception)
       \<and> (find (\<lambda>a. email a = e) (applicant_info db) = None
             \<longrightarrow> get_current_user rt now tok db = Inl credentials_exception)
       \<and> (\<forall>k payload. k \<noteq> SECRET_KEY rt
             \<longrightarrow> jwt_decode (Signed k payload) (SECRET_KEY rt) now = Inl InvalidSignatureError
               \<and> get_current_user rt now (Signed k payload) db = Inl credentials_exception)
       \<and> (\<forall>s. jwt_decode (Opaque s) (SECRET_KEY rt) now = Inl DecodeError
               \<and> get_current_user rt now (Opaque s) db = Inl credentials_exception)"
proof -
  define x where "x = utcnow + (case delta of None \<Rightarrow> 900 | Some d \<Rightarrow> if d = 0 then 900 else d)"
  have tok: "tok = Signed (SECRET_KEY rt) (data\<lparr>claim_exp := Some x\<rparr>)"
    unfolding issued x_def by (rule issued_token_form)
  have expiry: "token_expiry tok = Some x"
    unfolding tok by (simp add: token_expiry_def)
  have early: "get_current_user rt now tok db = Inr row"
    if "now < x \<and> find (\<lambda>a. email a = e) (applicant_info db) = Some row" for row
    unfolding tok resolve_signed using that subject by simp
  have late1: "jwt_decode tok (SECRET_KEY rt) now = Inl ExpiredSignatureError" if "x \<le> now"
    unfolding tok using that by simp
  have late2: "get_current_user rt now tok db = Inl credentials_exception" if "x \<le> now"
    unfolding tok resolve_signed using that by simp
  have gone: "get_current_user rt now tok db = Inl credentials_exception"
    if "find (\<lambda>a. email a = e) (applicant_info db) = None"
    unfolding tok resolve_signed using that subject by simp
  show ?thesis
  proof (intro exI [of _ x] conjI allI impI)
    show "token_expiry tok = Some x" by (rule expiry)
  next
    fix row
    assume "now < x \<and> find (\<lambda>a. email a = e) (applicant_info db) = Some row"
    then show "get_current_user rt now tok db = Inr row" by (rule early)
  next
    assume "x \<le> now"
    then show "jwt_decode tok (SECRET_KEY rt) now = Inl ExpiredSignatureError" by (rule late1)
  next
    assume "x \<le> now"
    then show "get_current_user rt now tok db = Inl credentials_exception" by (rule late2)
  next
    assume "find (\<lambda>a. email a = e) (applicant_info db) = None"
    then show "get_current_user rt now tok db = Inl credentials_exception" by (rule gone)
  next
    fix k payload
    assume "k \<noteq> SECRET_KEY rt"
    then show "jwt_decode (Signed k payload) (SECRET_KEY rt) now = Inl InvalidSignatureError"
      by simp
  next
    fix k payload
    assume "k \<noteq> SECRET_KEY rt"
    then show "get_current_user rt now (Signed k payload) db = Inl credentials_exception"
      by (rule resolve_forged)
  next
    fix s
    show "jwt_decode (Opaque s) (SECRET_KEY rt) now = Inl DecodeError"
      by simp
  next
    fix s
    show "get_current_user rt now (Opaque s) db = Inl credentials_exception"
      by (rule resolve_opaque)
  qed
qed

text \<open>
  Claim C9. Whenever the login succeeds, the token is the payload with subject the
  applicant's email and \<open>exp\<close> the clock reading at minting plus 30 minutes, signed
  with the server's key.
\<close>

theorem minted_token_subject_and_expiry:
  assumes "login_for_access_token rt utcnow db_now e pw db = (Inr tok, db')"
  shows "access_token tok =
           jwt_encode \<lparr>claim_sub = Some e,
                       claim_exp = Some (utcnow + timedelta_minutes 30)\<rparr> (SECRET_KEY rt)
       \<and> token_expiry (access_token tok) = Some (utcnow + 30 * 60)
       \<and> (\<exists>row. find (\<lambda>a. email a = e) (applicant_info db) = Some row \<and> email row = e)"
  using assms
  by (auto simp: login_for_access_token_def login_try_def authenticate_user_def
      create_access_token_def timedelta_minutes_def ACCESS_TOKEN_EXPIRE_MINUTES_def
      token_expiry_def jwt_encode_def Let_def
      split: option.splits if_splits sum.splits auth_result.splits prod.splits
      dest: find_email_eq)

lemma find_Some_mem: "find P xs = Some x \<Longrightarrow> x \<in> set xs \<and> P x"
  by (induction xs) (simp_all split: if_splits)

lemma touch_last_login_set:
  assumes "u \<in> set (touch_last_login db_now e rows)" and "login_email u = e"
  shows "last_login u = Some db_now"
proof -
  from assms(1) obtain r where r: "r \<in> set rows"
    and u: "u = (if login_email r = e then r\<lparr>last_login := Some db_now\<rparr> else r)"
    unfolding touch_last_login_def by (auto simp: image_iff)
  show ?thesis
  proof (cases "login_email r = e")
    case True
    with u show ?thesis by simp
  next
    case False
    with u assms(2) show ?thesis by simp
  qed
qed

lemma touch_last_login_keeps:
  assumes "u \<in> set rows" and "login_email u = e"
  shows "u\<lparr>last_login := Some db_now\<rparr> \<in> set (touch_last_login db_now e rows)"
proof -
  have "(\<lambda>u. if login_email u = e then u\<lparr>last_login := Some db_now\<rparr> else u) u \<in>
        (\<lambda>u. if login_email u = e then u\<lparr>last_login := Some db_now\<rparr> else u) ` set rows"
    using assms(1) by (rule imageI)
  then show ?thesis
    unfolding touch_last_login_def using assms(2) by simp
qed


text \<open>
  Claim C10. When the credential exists and the password's digest matches but the email
  has no applicant row, the login fails with \<open>login_failure\<close>, and the database it
  leaves is the one with the credential's \<open>last_login\<close> set to the server's
  \<open>NOW()\<close>: the update was committed before the applicant's row was looked up.
\<close>

theorem login_failure_keeps_timestamp:
  assumes cred: "find (\<lambda>u. login_email u = e) (applicant_login db) = Some user"
    and pw: "verify_password rt pw (password_hash user)"
    and info: "find (\<lambda>a. email a = e) (applicant_info db) = None"
  shows "login_for_access_token rt utcnow db_now e pw db =
           (Inl (login_failure rt),
            db\<lparr>applicant_login := touch_last_login db_now e (applicant_login db)\<rparr>)
       \<and> user\<lparr>last_login := Some db_now\<rparr> \<in> set (touch_last_login db_now e (applicant_login db))
       \<and> (\<forall>u \<in> set (touch_last_login db_now e (applicant_login db)).
             login_email u = e \<longrightarrow> last_login u = Some db_now)"
proof (intro conjI ballI impI)
  show "login_for_access_token rt utcnow db_now e pw db =
          (Inl (login_failure rt), db\<lparr>applicant_login := touch_last_login db_now e (applicant_login db)\<rparr>)"
    using cred pw info
    by (simp add: login_for_access_token_def login_try_def authenticate_user_def login_failure_def)
next
  from find_Some_mem [OF cred]
  have "user \<in> set (applicant_login db)" and "login_email user = e" by simp_all
  then show "user\<lparr>last_login := Some db_now\<rparr> \<in> set (touch_last_login db_now e (applicant_login db))"
    by (rule touch_last_login_keeps)
next
  fix u
  assume "u \<in> set (touch_last_login db_now e (applicant_login db))" "login_email u = e"
  then show "last_login u = Some db_now" by (rule touch_last_login_set)
qed

section \<open>Properties of registration\<close>

lemma register_outcome:
  "register_applicant st rt db_now a db =
     (case reject_applicant_info st db (info_row st db_now a db) of
        Some err \<Rightarrow> (Inl (register_error err), db)
      | None \<Rightarrow>
         (case reject_applicant_login st
                 (db\<lparr>applicant_info := applicant_info db @ [info_row st db_now a db]\<rparr>)
                 (login_row rt a) of
            Some err \<Rightarrow> (Inl (register_error err), db)
          | None \<Rightarrow> (Inr ''Applicant registered successfully'',
                     db\<lparr>applicant_info := applicant_info db @ [info_row st db_now a db],
                        applicant_login := applicant_login db @ [login_row rt a]\<rparr>)))"
  by (simp add: register_applicant_def insert_applicant_info_def insert_applicant_login_def
      split: option.splits)

text \<open>
  Claim C5, as amended. Every registration either fails and leaves the database
  unchanged, or adds exactly the applicant's row and the credential's row. On a store
  that keeps the credential's email unique, registering an email that already has a
  credential fails and leaves the database, and so the credentials, as they were: with
  the client error 400 "Email already registered" when the store takes the applicant's
  row or refuses it as a duplicate key, and with the 500 "Database error" response
  when the store refuses the applicant's row with another error.
\<close>

theorem register_atomic_and_duplicate:
  "((\<exists>e. register_applicant st rt db_now a db = (Inl e, db))
      \<or> register_applicant st rt db_now a db =
          (Inr ''Applicant registered successfully'',
           db\<lparr>applicant_info := applicant_info db @ [info_row st db_now a db],
              applicant_login := applicant_login db @ [login_row rt a]\<rparr>))
   \<and> ((\<forall>d r. login_email r \<in> set (map login_email (applicant_login d))
            \<longrightarrow> (\<exists>m. reject_applicant_login st d r = Some (MySQLError 1062 m)))
        \<and> email a \<in> set (map login_email (applicant_login db))
       \<longrightarrow> (reject_applicant_info st db (info_row st db_now a db) = None
              \<longrightarrow> register_applicant st rt db_now a db =
                    (Inl (HTTPException 400 ''Email already registered'' []), db))
         \<and> (\<forall>err. reject_applicant_info st db (info_row st db_now a db) = Some err
              \<longrightarrow> register_applicant st rt db_now a db =
                    (Inl (if errno err = 1062
                          then HTTPException 400 ''Email already registered'' []
                          else HTTPException 500 (''Database error: '' @ err_str err) []), db))
         \<and> client_error (HTTPException 400 ''Email already registered'' []))"
proof (intro conjI impI allI)
  show "(\<exists>e. register_applicant st rt db_now a db = (Inl e, db))
      \<or> register_applicant st rt db_now a db =
          (Inr ''Applicant registered successfully'',
           db\<lparr>applicant_info := applicant_info db @ [info_row st db_now a db],
              applicant_login := applicant_login db @ [login_row rt a]\<rparr>)"
    by (simp add: register_outcome split: option.splits)
next
  assume h: "(\<forall>d r. login_email r \<in> set (map login_email (applicant_login d))
            \<longrightarrow> (\<exists>m. reject_applicant_login st d r = Some (MySQLError 1062 m)))
        \<and> email a \<in> set (map login_email (applicant_login db))"
  assume none: "reject_applicant_info st db (info_row st db_now a db) = None"
  let ?d = "db\<lparr>applicant_info := applicant_info db @ [info_row st db_now a db]\<rparr>"
  have "login_email (login_row rt a) \<in> set (map login_email (applicant_login ?d))"
    using h by (simp add: login_row_def)
  with h obtain m where "reject_applicant_login st ?d (login_row rt a) = Some (MySQLError 1062 m)"
    by blast
  with none show "register_applicant st rt db_now a db =
                    (Inl (HTTPException 400 ''Email already registered'' []), db)"
    by (simp add: register_outcome register_error_def)
next
  fix err
  assume "reject_applicant_info st db (info_row st db_now a db) = Some err"
  then show "register_applicant st rt db_now a db =
                    (Inl (if errno err = 1062
                          then HTTPException 400 ''Email already registered'' []
                          else HTTPException 500 (''Database error: '' @ err_str err) []), db)"
    by (simp add: register_outcome register_error_def)
next
  show "client_error (HTTPException 400 ''Email already registered'' [])"
    by (simp add: client_error_def)
qed

section \<open>Properties of the roll allocator\<close>

lemma sql_max_None: "sql_max xs = None \<longleftrightarrow> xs = []"
  by (cases xs) (auto split: option.splits)

lemma sql_max_Max: "xs \<noteq> [] \<Longrightarrow> sql_max xs = Some (Max (set xs))"
proof (induction xs)
  case Nil
  then show ?case by simp
next
  case (Cons x xs)
  show ?case
  proof (cases "xs = []")
    case True
    then show ?thesis by simp
  next
    case False
    with Cons.IH have "sql_max xs = Some (Max (set xs))" by simp
    with False show ?thesis by (simp add: max.commute)
  qed
qed

lemma sql_max_upper: "sql_max xs = Some m \<Longrightarrow> x \<in> set xs \<Longrightarrow> x \<le> m"
  by (cases "xs = []") (auto simp: sql_max_Max)

lemma new_roll_fresh: "new_roll db \<notin> set (map exam_roll (admit_card db))"
proof
  assume mem: "new_roll db \<in> set (map exam_roll (admit_card db))"
  then obtain m where m: "sql_max (map exam_roll (admit_card db)) = Some m"
    by (cases "sql_max (map exam_roll (admit_card db))") (auto simp: sql_max_None)
  from sql_max_upper [OF m mem] have "new_roll db \<le> m" .
  moreover have "m \<le> 0" if "m = 0" using that by simp
  ultimately show False
    using m by (auto simp: new_roll_def or_default_def split: if_splits)
qed

lemma new_roll_cases:
  "new_roll db =
     (if admit_card db = [] then 220431
      else if Max (set (map exam_roll (admit_card db))) = 0 then 220431
      else Max (set (map exam_roll (admit_card db))) + 1)"
  by (cases "admit_card db = []") (simp_all add: new_roll_def or_default_def sql_max_Max)

lemma with_others_Nil: "with_others [] db = db"
  by (simp add: with_others_def)

lemma find_fresh_append:
  "roll \<notin> set (map exam_roll cards) \<Longrightarrow> exam_roll c = roll \<Longrightarrow>
   find (\<lambda>c. exam_roll c = roll) (cards @ [c]) = Some c"
  by (induction cards) auto

lemma create_admit_card_alone_accepted:
  assumes "reject_admit_card st db (card_row db_now req (new_roll db)) = None"
  shows "create_admit_card st rt [] db_now req db =
           (Inr (card_row db_now req (new_roll db)),
            db\<lparr>admit_card := admit_card db @ [card_row db_now req (new_roll db)]\<rparr>)"
proof -
  have "find (\<lambda>c. exam_roll c = new_roll db) (admit_card db @ [card_row db_now req (new_roll db)])
          = Some (card_row db_now req (new_roll db))"
    by (rule find_fresh_append [OF new_roll_fresh]) (simp add: card_row_def)
  moreover have "encode_photo rt (card_row db_now req (new_roll db)) = card_row db_now req (new_roll db)"
    by (simp add: encode_photo_def card_row_def)
  ultimately show ?thesis
    using assms
    by (simp add: create_admit_card_def insert_admit_card_def with_others_Nil Let_def)
qed

lemmas allocator_defs =
  new_roll_def or_default_def with_others_def create_admit_card_def insert_admit_card_def
  encode_photo_def client_error_def

lemma encode_photo_roll: "exam_roll (encode_photo rt c) = exam_roll c"
  by (simp add: encode_photo_def split: option.splits)

lemma issued_roll:
  assumes "create_admit_card st rt others db_now req db = (Inr c, db')"
  shows "exam_roll c = new_roll db"
proof (cases "insert_admit_card st (card_row db_now req (new_roll db)) (with_others others db)")
  case (Inl err)
  with assms show ?thesis by (simp add: create_admit_card_def Let_def)
next
  case (Inr db2)
  show ?thesis
  proof (cases "find (\<lambda>c. exam_roll c = new_roll db) (admit_card db2)")
    case None
    with Inr assms show ?thesis by (simp add: create_admit_card_def Let_def)
  next
    case (Some row)
    with Inr assms have "c = encode_photo rt row" by (simp add: create_admit_card_def Let_def)
    moreover from find_Some_mem [OF Some] have "exam_roll row = new_roll db" by simp
    ultimately show ?thesis by (simp add: encode_photo_roll)
  qed
qed

lemma issued_roll_next:
  assumes "create_admit_card st rt others db_now req db = (Inr c, db')"
  shows "exam_roll c =
     (if admit_card db = [] then 220431
      else if Max (set (map exam_roll (admit_card db))) = 0 then 220431
      else Max (set (map exam_roll (admit_card db))) + 1)"
  using issued_roll [OF assms] by (simp only: new_roll_cases)

lemma rolls_above_floor_Nil: "rolls_above_floor []"
  by (simp add: rolls_above_floor_def)








lemma sql_max_snoc: "\<forall>x \<in> set xs. x < r \<Longrightarrow> sql_max (xs @ [r]) = Some r"
  by (induction xs) simp_all

lemma new_roll_snoc:
  assumes below: "\<forall>x \<in> set (map exam_roll cards). x < r" and pos: "220431 \<le> r"
    and c: "exam_roll c = r"
  shows "new_roll (db\<lparr>admit_card := cards @ [c]\<rparr>) = r + 1"
proof -
  have "sql_max (map exam_roll cards @ [r]) = Some r"
    using below by (rule sql_max_snoc)
  then show ?thesis
    using pos c by (simp add: new_roll_def or_default_def)
qed

lemma consecutive_cards_rolls:
  "map exam_roll (consecutive_cards db_now r reqs) = map (\<lambda>i. r + int i) [0..<length reqs]"
proof (induction reqs arbitrary: r)
  case Nil
  show ?case by simp
next
  case (Cons req reqs)
  have "[0..<length (req # reqs)] = 0 # map Suc [0..<length reqs]"
    by (simp add: upt_conv_Cons map_Suc_upt del: upt_Suc)
  then have "map (\<lambda>i. r + int i) [0..<length (req # reqs)]
      = r # map (\<lambda>i. (r + 1) + int i) [0..<length reqs]"
    by (simp add: comp_def add.assoc del: upt_Suc)
  then show ?case
    using Cons.IH [of "r + 1"] by (simp add: card_row_def del: upt_Suc)
qed

lemma consecutive_cards_length: "length (consecutive_cards db_now r reqs) = length reqs"
  by (induction reqs arbitrary: r) simp_all

lemma issue_all_alone:
  assumes accepts: "\<forall>d c. exam_roll c \<notin> set (map exam_roll (admit_card d))
                        \<and> card_applicant_id c \<notin> set (map card_applicant_id (admit_card d))
                      \<longrightarrow> reject_admit_card st d c = None"
    and below: "\<forall>x \<in> set (map exam_roll (admit_card db)). x < r"
    and next_roll: "new_roll db = r"
    and pos: "220431 \<le> r"
    and applicants: "distinct (map card_applicant_id reqs)"
    and fresh: "set (map card_applicant_id reqs) \<inter> set (map card_applicant_id (admit_card db)) = {}"
  shows "issue_all st rt db_now reqs db =
           (map Inr (consecutive_cards db_now r reqs),
            db\<lparr>admit_card := admit_card db @ consecutive_cards db_now r reqs\<rparr>)"
  using below next_roll pos applicants fresh
proof (induction reqs arbitrary: db r)
  case Nil
  show ?case by simp
next
  case (Cons req reqs)
  let ?c = "card_row db_now req r"
  let ?db1 = "db\<lparr>admit_card := admit_card db @ [?c]\<rparr>"
  have roll: "exam_roll ?c \<notin> set (map exam_roll (admit_card db))"
    using new_roll_fresh [of db] Cons.prems(2) by (simp add: card_row_def)
  have appl: "card_applicant_id ?c \<notin> set (map card_applicant_id (admit_card db))"
    using Cons.prems(5) by (auto simp: card_row_def)
  from accepts roll appl have "reject_admit_card st db ?c = None" by blast
  then have acc: "reject_admit_card st db (card_row db_now req (new_roll db)) = None"
    using Cons.prems(2) by simp
  have one: "create_admit_card st rt [] db_now req db = (Inr ?c, ?db1)"
    using create_admit_card_alone_accepted [OF acc, of rt] Cons.prems(2) by simp
  have below1: "\<forall>x \<in> set (map exam_roll (admit_card ?db1)). x < r + 1"
    using Cons.prems(1) by (auto simp: card_row_def)
  have next1: "new_roll ?db1 = r + 1"
    by (rule new_roll_snoc [OF Cons.prems(1) Cons.prems(3)]) (simp add: card_row_def)
  have pos1: "220431 \<le> r + 1" using Cons.prems(3) by simp
  have appl1: "distinct (map card_applicant_id reqs)" using Cons.prems(4) by simp
  have fresh1: "set (map card_applicant_id reqs) \<inter> set (map card_applicant_id (admit_card ?db1)) = {}"
    using Cons.prems(4) Cons.prems(5) by (auto simp: card_row_def)
  have rest: "issue_all st rt db_now reqs ?db1 =
           (map Inr (consecutive_cards db_now (r + 1) reqs),
            ?db1\<lparr>admit_card := admit_card ?db1 @ consecutive_cards db_now (r + 1) reqs\<rparr>)"
    by (rule Cons.IH [OF below1 next1 pos1 appl1 fresh1])
  show ?case
    by (simp add: one rest)
qed

text \<open>
  Claim C1, as amended. When N calls for N distinct applicants are served one after the
  other on an empty table of cards, by a store that refuses a card only for a roll
  number or an applicant the table already holds, every call succeeds, exactly N cards
  result, and their roll numbers are the N consecutive integers from 220431, without
  duplicates.
\<close>

theorem sequential_calls_consecutive_rolls:
  assumes accepts: "\<forall>d c. exam_roll c \<notin> set (map exam_roll (admit_card d))
                        \<and> card_applicant_id c \<notin> set (map card_applicant_id (admit_card d))
                      \<longrightarrow> reject_admit_card st d c = None"
    and applicants: "distinct (map card_applicant_id reqs)"
    and empty: "admit_card db = []"
  shows "issue_all st rt db_now reqs db =
           (map Inr (consecutive_cards db_now 220431 reqs),
            db\<lparr>admit_card := consecutive_cards db_now 220431 reqs\<rparr>)
       \<and> length (consecutive_cards db_now 220431 reqs) = length reqs
       \<and> map exam_roll (consecutive_cards db_now 220431 reqs)
           = map (\<lambda>i. 220431 + int i) [0..<length reqs]
       \<and> distinct (map exam_roll (consecutive_cards db_now 220431 reqs))"
proof (intro conjI)
  have "issue_all st rt db_now reqs db =
           (map Inr (consecutive_cards db_now 220431 reqs),
            db\<lparr>admit_card := admit_card db @ consecutive_cards db_now 220431 reqs\<rparr>)"
    by (rule issue_all_alone [OF accepts _ _ _ applicants])
       (simp_all add: empty new_roll_def or_default_def)
  then show "issue_all st rt db_now reqs db =
           (map Inr (consecutive_cards db_now 220431 reqs),
            db\<lparr>admit_card := consecutive_cards db_now 220431 reqs\<rparr>)"
    by (simp add: empty)
  show "length (consecutive_cards db_now 220431 reqs) = length reqs"
    by (rule consecutive_cards_length)
  show "map exam_roll (consecutive_cards db_now 220431 reqs)
           = map (\<lambda>i. 220431 + int i) [0..<length reqs]"
    by (rule consecutive_cards_rolls)
  show "distinct (map exam_roll (consecutive_cards db_now 220431 reqs))"
    unfolding consecutive_cards_rolls by (simp add: distinct_map inj_on_def)
qed

text \<open>
  Claim C3, as amended. When the store refuses the insert of the new card, for a
  duplicate roll number or any other reason, \<open>create_admit_card\<close> runs no second
  read-compute-insert cycle: the call fails at once with the 500 "Database error"
  response, and the database is what the other connections left.
\<close>

theorem create_admit_card_fails_without_retry:
  assumes "reject_admit_card st (with_others others db) (card_row db_now req (new_roll db)) = Some err"
  shows "create_admit_card st rt others db_now req db =
           (Inl (HTTPException 500 (''Database error: '' @ err_str err) []), with_others others db)"
  using assms by (simp add: create_admit_card_def insert_admit_card_def Let_def)

text \<open>
  Claim C4, as amended. When the applicant of the request already holds a card, the
  outcome is the store's: if it refuses the insert the call fails with the 500
  "Database error" response, which is no client error, and stores nothing; if it
  accepts, a second card is issued to the applicant under the next roll number. In
  both cases the cards that existed are unchanged.
\<close>

theorem second_card_not_refused_as_duplicate:
  assumes holds: "card_applicant_id req \<in> set (map card_applicant_id (admit_card db))"
  shows "(\<forall>err. reject_admit_card st db (card_row db_now req (new_roll db)) = Some err \<longrightarrow>
            create_admit_card st rt [] db_now req db =
              (Inl (HTTPException 500 (''Database error: '' @ err_str err) []), db)
            \<and> \<not> client_error (HTTPException 500 (''Database error: '' @ err_str err) []))
       \<and> (reject_admit_card st db (card_row db_now req (new_roll db)) = None \<longrightarrow>
            create_admit_card st rt [] db_now req db =
              (Inr (card_row db_now req (new_roll db)),
               db\<lparr>admit_card := admit_card db @ [card_row db_now req (new_roll db)]\<rparr>)
            \<and> 2 \<le> length (filter (\<lambda>c. card_applicant_id c = card_applicant_id req)
                          (admit_card db @ [card_row db_now req (new_roll db)])))
       \<and> take (length (admit_card db))
            (admit_card (snd (create_admit_card st rt [] db_now req db))) = admit_card db"
proof -
  have two: "2 \<le> length (filter (\<lambda>c. card_applicant_id c = card_applicant_id req)
                          (admit_card db @ [card_row db_now req (new_roll db)]))"
  proof -
    from holds have "filter (\<lambda>c. card_applicant_id c = card_applicant_id req) (admit_card db) \<noteq> []"
      by (auto simp: filter_empty_conv)
    then have "1 \<le> length (filter (\<lambda>c. card_applicant_id c = card_applicant_id req) (admit_card db))"
      by (simp add: Suc_le_eq)
    then show ?thesis by (simp add: card_row_def)
  qed
  have rejected: "create_admit_card st rt [] db_now req db =
              (Inl (HTTPException 500 (''Database error: '' @ err_str err) []), db)"
    if "reject_admit_card st db (card_row db_now req (new_roll db)) = Some err" for err
    using that
    by (simp add: create_admit_card_def insert_admit_card_def with_others_Nil Let_def)
  have c1: "\<forall>err. reject_admit_card st db (card_row db_now req (new_roll db)) = Some err \<longrightarrow>
            create_admit_card st rt [] db_now req db =
              (Inl (HTTPException 500 (''Database error: '' @ err_str err) []), db)
            \<and> \<not> client_error (HTTPException 500 (''Database error: '' @ err_str err) [])"
  proof (intro allI impI conjI)
    fix err
    assume "reject_admit_card st db (card_row db_now req (new_roll db)) = Some err"
    then show "create_admit_card st rt [] db_now req db =
              (Inl (HTTPException 500 (''Database error: '' @ err_str err) []), db)"
      by (rule rejected)
  next
    fix err
    show "\<not> client_error (HTTPException 500 (''Database error: '' @ err_str err) [])"
      by (simp add: client_error_def)
  qed
  have c2: "reject_admit_card st db (card_row db_now req (new_roll db)) = None \<longrightarrow>
            create_admit_card st rt [] db_now req db =
              (Inr (card_row db_now req (new_roll db)),
               db\<lparr>admit_card := admit_card db @ [card_row db_now req (new_roll db)]\<rparr>)
            \<and> 2 \<le> length (filter (\<lambda>c. card_applicant_id c = card_applicant_id req)
                          (admit_card db @ [card_row db_now req (new_roll db)]))"
    by (intro impI conjI create_admit_card_alone_accepted two)
  have c3: "take (length (admit_card db))
            (admit_card (snd (create_admit_card st rt [] db_now req db))) = admit_card db"
  proof (cases "reject_admit_card st db (card_row db_now req (new_roll db))")
    case None
    show ?thesis
      unfolding create_admit_card_alone_accepted [OF None] by simp
  next
    case (Some err)
    show ?thesis
      unfolding rejected [OF Some] by simp
  qed
  show ?thesis
    by (rule conjI [OF c1 conjI [OF c2 c3]])
qed

section \<open>The theorems at concrete inputs\<close>

theorem login_failure_keeps_timestamp_witness:
  "find (\<lambda>u. login_email u = ''a@x.com'') (applicant_login db_orphan) = Some (login_row rt0 alice)
   \<and> verify_password rt0 ''pw1'' (password_hash (login_row rt0 alice))
   \<and> find (\<lambda>a. email a = ''a@x.com'') (applicant_info db_orphan) = None
   \<and> login_for_access_token rt0 100 101 ''a@x.com'' ''pw1'' db_orphan =
       (Inl (login_failure rt0),
        db_orphan\<lparr>applicant_login := [(login_row rt0 alice)\<lparr>last_login := Some 101\<rparr>]\<rparr>)"
proof -
  have h1: "find (\<lambda>u. login_email u = ''a@x.com'') (applicant_login db_orphan) = Some (login_row rt0 alice)"
    by (simp add: fixture_defs)
  have h2: "verify_password rt0 ''pw1'' (password_hash (login_row rt0 alice))"
    by (simp add: fixture_defs)
  have h3: "find (\<lambda>a. email a = ''a@x.com'') (applicant_info db_orphan) = None"
    by (simp add: fixture_defs)
  have t: "touch_last_login 101 ''a@x.com'' (applicant_login db_orphan)
             = [(login_row rt0 alice)\<lparr>last_login := Some 101\<rparr>]"
    by (simp add: touch_last_login_def fixture_defs)
  from login_failure_keeps_timestamp [OF h1 h2 h3, of 100 101]
  have r: "login_for_access_token rt0 100 101 ''a@x.com'' ''pw1'' db_orphan =
       (Inl (login_failure rt0),
        db_orphan\<lparr>applicant_login := touch_last_login 101 ''a@x.com'' (applicant_login db_orphan)\<rparr>)"
    by (rule conjunct1)
  show ?thesis
    unfolding r t by (intro conjI h1 h2 h3 refl)
qed

lemma alice_credential:
  "find (\<lambda>u. login_email u = ''a@x.com'') (applicant_login db_alice) = Some (login_row rt0 alice)"
  by (simp add: fixture_defs)

lemma alice_applicant:
  "find (\<lambda>a. email a = ''a@x.com'') (applicant_info db_alice) = Some alice_info"
  by (simp add: fixture_defs)

lemma alice_touched:
  "touch_last_login 101 ''a@x.com'' (applicant_login db_alice)
     = [(login_row rt0 alice)\<lparr>last_login := Some 101\<rparr>]"
  by (simp add: touch_last_login_def fixture_defs)

theorem authenticate_failure_same_kind_witness:
  "find (\<lambda>u. login_email u = ''b@x.com'') (applicant_login db_alice) = None
   \<and> find (\<lambda>u. login_email u = ''a@x.com'') (applicant_login db_alice) = Some (login_row rt0 alice)
   \<and> \<not> verify_password rt0 ''pw2'' (password_hash (login_row rt0 alice))
   \<and> login_for_access_token rt0 100 101 ''b@x.com'' ''pw1'' db_alice = (Inl (login_failure rt0), db_alice)
   \<and> login_for_access_token rt0 100 101 ''a@x.com'' ''pw2'' db_alice = (Inl (login_failure rt0), db_alice)"
proof -
  have h1: "find (\<lambda>u. login_email u = ''b@x.com'') (applicant_login db_alice) = None"
    by (simp add: fixture_defs)
  have h3: "\<not> verify_password rt0 ''pw2'' (password_hash (login_row rt0 alice))"
    by (simp add: fixture_defs)
  note r = authenticate_failure_same_kind [OF h1 alice_credential h3, of 101 "''pw1''" 100]
  show ?thesis
    by (intro conjI h1 alice_credential h3 r [THEN conjunct2, THEN conjunct2, THEN conjunct1]
        r [THEN conjunct2, THEN conjunct2, THEN conjunct2])
qed

theorem authenticate_then_resolve_witness:
  "login_for_access_token rt0 100 101 ''a@x.com'' ''pw1'' db_alice =
     (Inr \<lparr>access_token = Signed ''your-secret-key'' \<lparr>claim_sub = Some ''a@x.com'', claim_exp = Some 1900\<rparr>,
           token_type = ''bearer''\<rparr>,
      db_alice\<lparr>applicant_login := [(login_row rt0 alice)\<lparr>last_login := Some 101\<rparr>]\<rparr>)
   \<and> get_current_user rt0 1899
        (Signed ''your-secret-key'' \<lparr>claim_sub = Some ''a@x.com'', claim_exp = Some 1900\<rparr>)
        (db_alice\<lparr>applicant_login := [(login_row rt0 alice)\<lparr>last_login := Some 101\<rparr>]\<rparr>)
       = Inr alice_info
   \<and> email alice_info = ''a@x.com''"
proof -
  have h2: "password_hash (login_row rt0 alice) = get_password_hash rt0 ''pw1''"
    by (simp add: fixture_defs)
  have h4: "(1899::int) < 100 + timedelta_minutes ACCESS_TOKEN_EXPIRE_MINUTES"
    by (simp add: timedelta_minutes_def ACCESS_TOKEN_EXPIRE_MINUTES_def)
  have v: "verify_password rt0 ''pw1'' (password_hash (login_row rt0 alice))"
    by (simp add: fixture_defs)
  have l: "login_for_access_token rt0 100 101 ''a@x.com'' ''pw1'' db_alice =
     (Inr \<lparr>access_token = Signed ''your-secret-key'' \<lparr>claim_sub = Some ''a@x.com'', claim_exp = Some 1900\<rparr>,
           token_type = ''bearer''\<rparr>,
      db_alice\<lparr>applicant_login := [(login_row rt0 alice)\<lparr>last_login := Some 101\<rparr>]\<rparr>)"
    unfolding login_success [OF alice_credential v alice_applicant] alice_touched
    by (simp add: jwt_encode_def rt0_def)
  from authenticate_then_resolve [OF alice_credential h2 alice_applicant h4, of 101]
  obtain tok db' where t: "login_for_access_token rt0 100 101 ''a@x.com'' ''pw1'' db_alice = (Inr tok, db')"
    and g: "get_current_user rt0 1899 (access_token tok) db' = Inr alice_info"
    and m: "email alice_info = ''a@x.com''"
    by blast
  from t l have "tok = \<lparr>access_token = Signed ''your-secret-key'' \<lparr>claim_sub = Some ''a@x.com'', claim_exp = Some 1900\<rparr>,
           token_type = ''bearer''\<rparr>"
    and "db' = db_alice\<lparr>applicant_login := [(login_row rt0 alice)\<lparr>last_login := Some 101\<rparr>]\<rparr>"
    by simp_all
  with g have "get_current_user rt0 1899
        (Signed ''your-secret-key'' \<lparr>claim_sub = Some ''a@x.com'', claim_exp = Some 1900\<rparr>)
        (db_alice\<lparr>applicant_login := [(login_row rt0 alice)\<lparr>last_login := Some 101\<rparr>]\<rparr>)
       = Inr alice_info"
    by simp
  with l m show ?thesis by (intro conjI)
qed

theorem resolve_issued_token_witness:
  "claim_sub \<lparr>claim_sub = Some ''a@x.com'', claim_exp = None\<rparr> = Some ''a@x.com''
   \<and> get_current_user rt0 1899
        (create_access_token rt0 100 \<lparr>claim_sub = Some ''a@x.com'', claim_exp = None\<rparr> (Some 1800))
        db_alice = Inr alice_info
   \<and> get_current_user rt0 1900
        (create_access_token rt0 100 \<lparr>claim_sub = Some ''a@x.com'', claim_exp = None\<rparr> (Some 1800))
        db_alice = Inl credentials_exception
   \<and> get_current_user rt0 1899
        (create_access_token rt0 100 \<lparr>claim_sub = Some ''a@x.com'', claim_exp = None\<rparr> (Some 1800))
        empty_db = Inl credentials_exception"
proof -
  let ?data = "\<lparr>claim_sub = Some ''a@x.com'', claim_exp = None\<rparr>"
  let ?tok = "create_access_token rt0 100 ?data (Some 1800)"
  have h2: "claim_sub ?data = Some ''a@x.com''" by simp
  have x: "token_expiry ?tok = Some 1900"
    by (simp add: token_expiry_def create_access_token_def jwt_encode_def)
  have gone: "find (\<lambda>a. email a = ''a@x.com'') (applicant_info empty_db) = None"
    by (simp add: empty_db_def)
  from resolve_issued_token [OF refl h2, of rt0 100 "Some 1800" 1899 db_alice] x alice_applicant
  have a: "get_current_user rt0 1899 ?tok db_alice = Inr alice_info" by simp
  from resolve_issued_token [OF refl h2, of rt0 100 "Some 1800" 1900 db_alice] x
  have b: "get_current_user rt0 1900 ?tok db_alice = Inl credentials_exception" by simp
  from resolve_issued_token [OF refl h2, of rt0 100 "Some 1800" 1899 empty_db] x gone
  have c: "get_current_user rt0 1899 ?tok empty_db = Inl credentials_exception" by simp
  show ?thesis
    by (intro conjI h2 a b c)
qed

theorem minted_token_subject_and_expiry_witness:
  "login_for_access_token rt0 100 101 ''a@x.com'' ''pw1'' db_alice =
     (Inr \<lparr>access_token = Signed ''your-secret-key'' \<lparr>claim_sub = Some ''a@x.com'', claim_exp = Some 1900\<rparr>,
           token_type = ''bearer''\<rparr>,
      db_alice\<lparr>applicant_login := [(login_row rt0 alice)\<lparr>last_login := Some 101\<rparr>]\<rparr>)
   \<and> token_expiry (Signed ''your-secret-key'' \<lparr>claim_sub = Some ''a@x.com'', claim_exp = Some 1900\<rparr>)
       = Some (100 + 30 * 60)"
proof -
  have v: "verify_password rt0 ''pw1'' (password_hash (login_row rt0 alice))"
    by (simp add: fixture_defs)
  have l: "login_for_access_token rt0 100 101 ''a@x.com'' ''pw1'' db_alice =
     (Inr \<lparr>access_token = Signed ''your-secret-key'' \<lparr>claim_sub = Some ''a@x.com'', claim_exp = Some 1900\<rparr>,
           token_type = ''bearer''\<rparr>,
      db_alice\<lparr>applicant_login := [(login_row rt0 alice)\<lparr>last_login := Some 101\<rparr>]\<rparr>)"
    unfolding login_success [OF alice_credential v alice_applicant] alice_touched
    by (simp add: jwt_encode_def rt0_def)
  from minted_token_subject_and_expiry [OF l]
  have "token_expiry (Signed ''your-secret-key'' \<lparr>claim_sub = Some ''a@x.com'', claim_exp = Some 1900\<rparr>)
       = Some (100 + 30 * 60)"
    by (simp add: jwt_encode_def timedelta_minutes_def rt0_def)
  with l show ?thesis by (intro conjI)
qed

theorem register_atomic_and_duplicate_witness:
  "register_applicant keyed_store rt0 10 alice empty_db =
     (Inr ''Applicant registered successfully'', db_alice)
   \<and> email alice \<in> set (map login_email (applicant_login db_alice))
   \<and> reject_applicant_info keyed_store db_alice (info_row keyed_store 20 alice db_alice) = None
   \<and> register_applicant keyed_store rt0 20 alice db_alice =
       (Inl (HTTPException 400 ''Email already registered'' []), db_alice)
   \<and> length (applicant_login db_alice) = 1"
proof -
  have key: "\<forall>d r. login_email r \<in> set (map login_email (applicant_login d))
                  \<longrightarrow> (\<exists>m. reject_applicant_login keyed_store d r = Some (MySQLError 1062 m))"
    by (simp add: keyed_store_def duplicate_entry_def)
  have has: "email alice \<in> set (map login_email (applicant_login db_alice))"
    by (simp add: fixture_defs)
  have none: "reject_applicant_info keyed_store db_alice (info_row keyed_store 20 alice db_alice) = None"
    by (simp add: keyed_store_def)
  have first: "register_applicant keyed_store rt0 10 alice empty_db =
     (Inr ''Applicant registered successfully'', db_alice)"
    unfolding register_outcome by (simp add: fixture_defs)
  note r = register_atomic_and_duplicate [where st = keyed_store and db = db_alice and db_now = 20
      and a = alice and rt = rt0, THEN conjunct2, rule_format, OF conjI [OF key has]]
  from r [THEN conjunct1, rule_format, OF none]
  have second: "register_applicant keyed_store rt0 20 alice db_alice =
       (Inl (HTTPException 400 ''Email already registered'' []), db_alice)" .
  have one: "length (applicant_login db_alice) = 1"
    by (simp add: db_alice_def)
  show ?thesis by (intro conjI first has none second one)
qed


theorem sequential_calls_consecutive_rolls_witness:
  "distinct (map card_applicant_id [request_for 1, request_for 2])
   \<and> admit_card empty_db = []
   \<and> issue_all keyed_store rt0 50 [request_for 1, request_for 2] empty_db =
       ([Inr (card_row 50 (request_for 1) 220431), Inr (card_row 50 (request_for 2) 220432)],
        empty_db\<lparr>admit_card := [card_row 50 (request_for 1) 220431,
                                  card_row 50 (request_for 2) 220432]\<rparr>)"
proof -
  have accepts: "\<forall>d c. exam_roll c \<notin> set (map exam_roll (admit_card d))
                        \<and> card_applicant_id c \<notin> set (map card_applicant_id (admit_card d))
                      \<longrightarrow> reject_admit_card keyed_store d c = None"
    by (simp add: keyed_store_def)
  have d: "distinct (map card_applicant_id [request_for 1, request_for 2])"
    by (simp add: request_for_def)
  have e: "admit_card empty_db = []"
    by (simp add: empty_db_def)
  from sequential_calls_consecutive_rolls [OF accepts d e, of rt0 50]
  have "issue_all keyed_store rt0 50 [request_for 1, request_for 2] empty_db =
       ([Inr (card_row 50 (request_for 1) 220431), Inr (card_row 50 (request_for 2) 220432)],
        empty_db\<lparr>admit_card := [card_row 50 (request_for 1) 220431,
                                  card_row 50 (request_for 2) 220432]\<rparr>)"
    by simp
  with d e show ?thesis by (intro conjI)
qed

lemma one_card_roll: "new_roll db_one_card = 220432"
  by (simp add: new_roll_def or_default_def fixture_defs)

lemma raced_db:
  "with_others [card_of 2 220432] db_one_card
     = empty_db\<lparr>admit_card := [card_of 1 220431, card_of 2 220432]\<rparr>"
  by (simp add: with_others_def db_one_card_def)

theorem create_admit_card_fails_without_retry_witness:
  "reject_admit_card keyed_store (with_others [card_of 2 220432] db_one_card)
       (card_row 50 (request_for 3) (new_roll db_one_card)) = Some duplicate_entry
   \<and> create_admit_card keyed_store rt0 [card_of 2 220432] 50 (request_for 3) db_one_card =
       (Inl (HTTPException 500 ''Database error: Duplicate entry'' []),
        empty_db\<lparr>admit_card := [card_of 1 220431, card_of 2 220432]\<rparr>)"
proof -
  have h: "reject_admit_card keyed_store (with_others [card_of 2 220432] db_one_card)
       (card_row 50 (request_for 3) (new_roll db_one_card)) = Some duplicate_entry"
    unfolding one_card_roll raced_db by (simp add: fixture_defs)
  from create_admit_card_fails_without_retry [OF h, of rt0]
  have "create_admit_card keyed_store rt0 [card_of 2 220432] 50 (request_for 3) db_one_card =
       (Inl (HTTPException 500 ''Database error: Duplicate entry'' []),
        empty_db\<lparr>admit_card := [card_of 1 220431, card_of 2 220432]\<rparr>)"
    unfolding raced_db by (simp add: duplicate_entry_def)
  with h show ?thesis by (intro conjI)
qed

theorem second_card_not_refused_as_duplicate_witness:
  "card_applicant_id (request_for 1) \<in> set (map card_applicant_id (admit_card db_one_card))
   \<and> create_admit_card keyed_store rt0 [] 50 (request_for 1) db_one_card =
       (Inl (HTTPException 500 ''Database error: Duplicate entry'' []), db_one_card)
   \<and> take 1 (admit_card (snd (create_admit_card keyed_store rt0 [] 50 (request_for 1) db_one_card)))
       = [card_of 1 220431]"
proof -
  have h: "card_applicant_id (request_for 1) \<in> set (map card_applicant_id (admit_card db_one_card))"
    by (simp add: fixture_defs)
  have rej: "reject_admit_card keyed_store db_one_card
               (card_row 50 (request_for 1) (new_roll db_one_card)) = Some duplicate_entry"
    unfolding one_card_roll by (simp add: fixture_defs)
  note r = second_card_not_refused_as_duplicate [OF h, of keyed_store 50 rt0]
  from r rej have a: "create_admit_card keyed_store rt0 [] 50 (request_for 1) db_one_card =
       (Inl (HTTPException 500 (''Database error: '' @ err_str duplicate_entry) []), db_one_card)"
    by simp
  from r have "take (length (admit_card db_one_card))
      (admit_card (snd (create_admit_card keyed_store rt0 [] 50 (request_for 1) db_one_card)))
       = admit_card db_one_card"
    by simp
  then have b: "take 1 (admit_card (snd (create_admit_card keyed_store rt0 [] 50 (request_for 1) db_one_card)))
       = [card_of 1 220431]"
    by (simp add: db_one_card_def empty_db_def)
  from a have a': "create_admit_card keyed_store rt0 [] 50 (request_for 1) db_one_card =
       (Inl (HTTPException 500 ''Database error: Duplicate entry'' []), db_one_card)"
    by (simp add: duplicate_entry_def)
  show ?thesis by (intro conjI h a' b)
qed

section \<open>Where the code departs from the specification\<close>

text \<open>
  A race for a roll number: the table holds card 220431, this call reads the maximum,
  another connection commits card 220432, and this call's insert of 220432 is refused
  as a duplicate key. The call fails with the 500 response, although the same request
  made again on the database it left is granted roll number 220433.
\<close>

theorem retry_counterexample:
  "new_roll db_one_card = 220432
   \<and> exam_roll (card_of 2 220432) = 220432
   \<and> reject_admit_card keyed_store (with_others [card_of 2 220432] db_one_card)
       (card_row 50 (request_for 3) 220432) = Some (MySQLError 1062 ''Duplicate entry'')
   \<and> create_admit_card keyed_store rt0 [card_of 2 220432] 50 (request_for 3) db_one_card =
       (Inl (HTTPException 500 ''Database error: Duplicate entry'' []),
        with_others [card_of 2 220432] db_one_card)
   \<and> create_admit_card keyed_store rt0 [] 50 (request_for 3)
         (with_others [card_of 2 220432] db_one_card) =
       (Inr (card_row 50 (request_for 3) 220433),
        empty_db\<lparr>admit_card := [card_of 1 220431, card_of 2 220432,
                                  card_row 50 (request_for 3) 220433]\<rparr>)"
  by (simp add: allocator_defs fixture_defs)

text \<open>
  A second card for an applicant who holds one: on the store that keeps one card per
  applicant the call fails with the 500 "Database error" response, not with a client
  error; on the store without that key the second card is issued.
\<close>

theorem duplicate_admit_card_counterexample:
  "card_applicant_id (request_for 1) \<in> set (map card_applicant_id (admit_card db_one_card))
   \<and> create_admit_card keyed_store rt0 [] 50 (request_for 1) db_one_card =
       (Inl (HTTPException 500 ''Database error: Duplicate entry'' []), db_one_card)
   \<and> \<not> client_error (HTTPException 500 ''Database error: Duplicate entry'' [])
   \<and> create_admit_card unkeyed_store rt0 [] 50 (request_for 1) db_one_card =
       (Inr (card_row 50 (request_for 1) 220432),
        empty_db\<lparr>admit_card := [card_of 1 220431, card_row 50 (request_for 1) 220432]\<rparr>)"
  by (simp add: allocator_defs fixture_defs)

text \<open>
  Two calls that overlap on an empty table: the call for applicant 1 reads the maximum,
  the call for applicant 2 is served and commits card 220431, and then the first call
  inserts its own card 220431. On the store with a key on the roll number the insert is
  refused and the call fails, so one card results; on the store without keys two cards
  with the roll number 220431 result.
\<close>

theorem overlapping_calls_counterexample:
  "create_admit_card keyed_store rt0 [] 50 (request_for 2) empty_db =
     (Inr (card_row 50 (request_for 2) 220431),
      empty_db\<lparr>admit_card := [card_row 50 (request_for 2) 220431]\<rparr>)
   \<and> create_admit_card keyed_store rt0 [card_row 50 (request_for 2) 220431] 50 (request_for 1) empty_db =
       (Inl (HTTPException 500 ''Database error: Duplicate entry'' []),
        empty_db\<lparr>admit_card := [card_row 50 (request_for 2) 220431]\<rparr>)
   \<and> length [card_row 50 (request_for 2) 220431] = 1
   \<and> snd (create_admit_card open_store rt0 [card_row 50 (request_for 2) 220431] 50 (request_for 1) empty_db) =
       empty_db\<lparr>admit_card := [card_row 50 (request_for 2) 220431,
                                 card_row 50 (request_for 1) 220431]\<rparr>
   \<and> map exam_roll [card_row 50 (request_for 2) 220431, card_row 50 (request_for 1) 220431]
       = [220431, 220431]"
  by (simp add: allocator_defs fixture_defs)

text \<open>
  A registration under an email that has a credential, with a name the store's column
  does not take: the store would refuse the credential as a duplicate key, but the
  applicant's row is refused first, and the response is the 500, not a client error.
\<close>

theorem duplicate_email_other_refusal_counterexample:
  "email alexandra \<in> set (map login_email (applicant_login db_alice))
   \<and> reject_applicant_login long_name_store db_alice (login_row rt0 alexandra)
       = Some (MySQLError 1062 ''Duplicate entry'')
   \<and> register_applicant long_name_store rt0 20 alexandra db_alice =
       (Inl (HTTPException 500
              ''Database error: 1406 (22001): Data too long for column first_name at row 1'' []),
        db_alice)
   \<and> \<not> client_error (HTTPException 500
              ''Database error: 1406 (22001): Data too long for column first_name at row 1'' [])"
  by (simp add: register_outcome register_error_def client_error_def fixture_defs)

text \<open>
  An expired token, a token signed under another key, and a token whose subject has no
  applicant row: the decoder tells the first from the second, the response of
  \<open>get_current_user\<close> is the same for all three.
\<close>

theorem resolve_failures_alike_counterexample:
  "jwt_decode
      (create_access_token rt0 100 \<lparr>claim_sub = Some ''a@x.com'', claim_exp = None\<rparr> (Some 1800))
      (SECRET_KEY rt0) 1900 = Inl ExpiredSignatureError
   \<and> jwt_decode (Signed ''another-key'' \<lparr>claim_sub = Some ''a@x.com'', claim_exp = Some 1900\<rparr>)
      (SECRET_KEY rt0) 1899 = Inl InvalidSignatureError
   \<and> get_current_user rt0 1900
      (create_access_token rt0 100 \<lparr>claim_sub = Some ''a@x.com'', claim_exp = None\<rparr> (Some 1800))
      db_alice = Inl credentials_exception
   \<and> get_current_user rt0 1899
      (Signed ''another-key'' \<lparr>claim_sub = Some ''a@x.com'', claim_exp = Some 1900\<rparr>)
      db_alice = Inl credentials_exception
   \<and> get_current_user rt0 1899
      (create_access_token rt0 100 \<lparr>claim_sub = Some ''a@x.com'', claim_exp = None\<rparr> (Some 1800))
      empty_db = Inl credentials_exception
   \<and> get_current_user rt0 1900
      (create_access_token rt0 100 \<lparr>claim_sub = Some ''a@x.com'', claim_exp = None\<rparr> (Some 1800))
      db_alice
     = get_current_user rt0 1899
      (Signed ''another-key'' \<lparr>claim_sub = Some ''a@x.com'', claim_exp = Some 1900\<rparr>)
      db_alice"
  by (simp add: get_current_user_def create_access_token_def jwt_encode_def fixture_defs)

end
